theory Spec2Isabelle
  imports Complex_Main
begin

section \<open>Python values and exceptions\<close>

text \<open>
  Numbers are modelled as exact rationals: Python's \<open>int\<close> values are embedded exactly, and
  the binary rounding of \<open>float\<close> arithmetic is not modelled.  Time stamps
  (\<open>datetime\<close> values) are integers counting microseconds since the epoch.
\<close>

type_synonym num = rat
type_synonym time = int

datatype py_exn = TypeError | KeyError | InvalidId | ModelError

text \<open>A value found in a request dictionary: a number, a string or \<open>None\<close>.\<close>

datatype pyval = PNum num | PStr string | PNone

text \<open>
  Arithmetic and ordering on a non-number raise \<open>TypeError\<close>; \<open>as_num\<close> is the
  coercion every such operator performs on its operand.
\<close>

fun as_num :: "pyval \<Rightarrow> py_exn + num" where
  "as_num (PNum x) = Inr x"
| "as_num (PStr s) = Inl TypeError"
| "as_num PNone = Inl TypeError"

section \<open>Fraud scoring (\<open>app/ml_models/fraud_detection.py\<close>)\<close>

text \<open>
  The dictionary handed to the scorer; a field is \<open>None\<close> when the key is absent, and
  \<open>dict.get\<close> then supplies the default.
\<close>

record txn_data =
  td_amount :: "pyval option"
  td_hour :: "pyval option"
  td_balance_before :: "pyval option"
  td_transaction_count_today :: "pyval option"

definition dict_get :: "pyval option \<Rightarrow> num \<Rightarrow> pyval" where
  "dict_get field dflt = (case field of None \<Rightarrow> PNum dflt | Some v \<Rightarrow> v)"

text \<open>
  \<open>_rule_based_fraud_score\<close>: four tests in the order of the source, each adding its weight
  to \<open>score\<close>.  The first test is \<open>balance_before > 0 and amount / balance_before > 0.8\<close>;
  the right operand of \<open>and\<close> is evaluated only when the left one holds.
\<close>

definition rule_based_fraud_score :: "txn_data \<Rightarrow> py_exn + num" where
  "rule_based_fraud_score d =
    (let score0 = 0;
         amount = dict_get (td_amount d) 0;
         hour = dict_get (td_hour d) 12;
         balance_before = dict_get (td_balance_before d) 0;
         txn_count_today = dict_get (td_transaction_count_today d) 0
     in case as_num balance_before of Inl e \<Rightarrow> Inl e | Inr b \<Rightarrow>
        (case (if b > 0
               then (case as_num amount of Inl e \<Rightarrow> Inl e
                     | Inr a \<Rightarrow> Inr (if a / b > 8 / 10 then score0 + 3 / 10 else score0))
               else Inr score0) of Inl e \<Rightarrow> Inl e | Inr score1 \<Rightarrow>
        (case as_num hour of Inl e \<Rightarrow> Inl e | Inr h \<Rightarrow>
        (let score2 = (if 0 \<le> h \<and> h \<le> 5 then score1 + 2 / 10 else score1)
         in case as_num txn_count_today of Inl e \<Rightarrow> Inl e | Inr c \<Rightarrow>
        (let score3 = (if c > 10 then score2 + 25 / 100 else score2)
         in case as_num amount of Inl e \<Rightarrow> Inl e | Inr a \<Rightarrow>
        (let score4 = (if a > 100000 then score3 + 25 / 100 else score3)
         in Inr (min score4 1)))))))"

text \<open>
  Python's \<open>round(x, 4)\<close> on an exactly represented value: to the nearest multiple of
  \<open>10\<^sup>-\<^sup>4\<close>, a tie going to the even neighbour.
\<close>

definition py_round4 :: "num \<Rightarrow> num" where
  "py_round4 x =
    (let y = x * 10000; f = \<lfloor>y\<rfloor>; r = y - of_int f
     in of_int (if r < 1 / 2 then f else if r > 1 / 2 then f + 1
                else if even f then f else f + 1) / 10000)"

text \<open>
  The pickled isolation forest is not part of the repository.  It is a parameter: its two
  methods map the feature row to a label and a decision value, or raise.
\<close>

record iforest =
  if_predict :: "pyval list \<Rightarrow> py_exn + int"
  if_decision_function :: "pyval list \<Rightarrow> py_exn + num"

text \<open>
  The file at \<open>MODEL_PATH\<close>: absent, present but failing to open or unpickle, or holding a
  model.
\<close>

datatype model_file = NoModelFile | BrokenModelFile | ModelFile iforest

record verdict =
  is_fraud :: bool
  fraud_score :: num
  model :: string

text \<open>The body of the \<open>try\<close> block of \<open>predict_fraud\<close>.\<close>

definition predict_fraud_try :: "model_file \<Rightarrow> txn_data \<Rightarrow> py_exn + verdict" where
  "predict_fraud_try mf d =
    (case mf of
       BrokenModelFile \<Rightarrow> Inl ModelError
     | ModelFile m \<Rightarrow>
        (let features = [dict_get (td_amount d) 0, dict_get (td_hour d) 12,
                         dict_get (td_balance_before d) 0,
                         dict_get (td_transaction_count_today d) 0]
         in case if_predict m features of Inl e \<Rightarrow> Inl e | Inr prediction \<Rightarrow>
            (case if_decision_function m features of Inl e \<Rightarrow> Inl e | Inr score \<Rightarrow>
             (let normalized_score = max 0 (min 1 ((1 - score) / 2))
              in Inr \<lparr>is_fraud = (prediction = - 1),
                      fraud_score = py_round4 normalized_score,
                      model = ''isolation_forest''\<rparr>)))
     | NoModelFile \<Rightarrow>
        (case rule_based_fraud_score d of Inl e \<Rightarrow> Inl e
         | Inr score \<Rightarrow>
             Inr \<lparr>is_fraud = (score \<ge> 1 / 2),
                  fraud_score = py_round4 score,
                  model = ''rule_based''\<rparr>))"

text \<open>\<open>predict_fraud\<close>: the \<open>try\<close> block under its \<open>except Exception\<close> handler.\<close>

definition predict_fraud :: "model_file \<Rightarrow> txn_data \<Rightarrow> verdict" where
  "predict_fraud mf d =
    (case predict_fraud_try mf d of
       Inr v \<Rightarrow> v
     | Inl e \<Rightarrow> \<lparr>is_fraud = False, fraud_score = 0, model = ''fallback_error''\<rparr>)"

section \<open>The document store\<close>

text \<open>
  \<open>bson.ObjectId(s)\<close> raises \<open>InvalidId\<close> unless \<open>s\<close> is a string of 24 hexadecimal
  digits; \<open>str\<close> of an ObjectId is its 24 lower-case digits.  An \<open>oid\<close> is that lower-case
  string, so \<open>str\<close> is the identity on it.
\<close>

type_synonym oid = string

definition is_hex :: "char \<Rightarrow> bool" where
  "is_hex c = (c \<in> set ''0123456789abcdefABCDEF'')"

definition hex_lower :: "char \<Rightarrow> char" where
  "hex_lower c = (case map_of (zip ''ABCDEF'' ''abcdef'') c of Some l \<Rightarrow> l | None \<Rightarrow> c)"

definition ObjectId :: "string \<Rightarrow> py_exn + oid" where
  "ObjectId s = (if length s = 24 \<and> list_all is_hex s then Inr (map hex_lower s)
                 else Inl InvalidId)"

text \<open>JSON values of a response body; \<open>JDate t\<close> stands for the string \<open>str(t)\<close>.\<close>

datatype jval = JNum num | JStr string | JBool bool | JNull | JDate time
  | JObj "(string \<times> jval) list" | JArr "jval list"

text \<open>The fields of a \<open>users\<close> document that the modelled handlers read or write.\<close>

record user_doc =
  u_id :: oid
  u_name :: string
  u_email :: string
  u_phone :: string
  u_account_number :: string
  u_balance :: num
  u_is_active :: bool
  u_role :: string
  u_created_at :: time

record txn_doc =
  t_id :: oid
  t_user_id :: string
  t_type :: string
  t_amount :: num
  t_description :: string
  t_balance_after :: num
  t_related_account :: "string option"
  t_is_flagged :: bool
  t_fraud_score :: num
  t_timestamp :: time

text \<open>
  The claims of a permission token; \<open>iat\<close> and \<open>exp\<close> are whole seconds, as a JWT carries
  them.  Signatures are symbolic: a token is either a string that is no well-formed JWT, or
  a payload together with the key it was signed with.
\<close>

record payload =
  p_admin_id :: string
  p_user_id :: string
  p_request_id :: string
  p_type :: string
  p_iat :: int
  p_exp :: int

datatype jwt = Garbage string | Signed string payload

record access_request =
  r_id :: oid
  r_admin_id :: string
  r_admin_name :: string
  r_user_id :: string
  r_reason :: string
  r_status :: string
  r_permission_token :: "jwt option"
  r_requested_at :: time
  r_expires_at :: time
  r_granted_at :: "time option"
  r_denied_at :: "time option"

record log_entry =
  l_id :: oid
  l_actor_id :: string
  l_actor_role :: string
  l_action :: string
  l_target_user_id :: "string option"
  l_details :: "(string \<times> jval) list"
  l_ip_address :: "string option"
  l_user_agent :: string
  l_timestamp :: time

text \<open>A message handed to \<open>mail.send\<close>, by the arguments of the function that builds it.\<close>

datatype mail =
  AccessRequestMail string string string string string
| AccessDecisionMail string string string string
| TransactionAlertMail string string string num num

text \<open>
  The four collections, each in insertion order, and the messages the mail server accepted.
\<close>

record db =
  users :: "user_doc list"
  transactions :: "txn_doc list"
  access_requests :: "access_request list"
  audit_logs :: "log_entry list"
  outbox :: "mail list"

text \<open>
  What a handler takes from its surroundings: the successive readings of
  \<open>datetime.utcnow()\<close> (the \<open>k\<close>-th call of a handler reads \<open>clock k\<close>), the identifiers the
  driver gives to inserted documents, the configured \<open>PERMISSION_SECRET\<close>, whether the mail
  server accepts messages, and the fraud model file.
\<close>

record env =
  clock :: "nat \<Rightarrow> time"
  new_oid :: "nat \<Rightarrow> oid"
  permission_secret :: string
  mail_up :: bool
  fraud_model :: model_file

text \<open>The identity that \<open>get_jwt_identity()\<close> returns.\<close>

record identity =
  id_user_id :: string
  id_role :: string
  id_name :: string

text \<open>
  The Flask request: the identity of a verified access token if the request carries one,
  the keys of the JSON body, the \<open>X-Permission-Token\<close> header, and the origin metadata.
\<close>

record http_request =
  jwt_identity :: "identity option"
  rq_amount :: "pyval option"
  rq_description :: "string option"
  rq_to_account_number :: "string option"
  rq_reason :: "string option"
  rq_permission_token :: "jwt option"
  rq_remote_addr :: "string option"
  rq_user_agent :: "string option"

text \<open>
  A handler answers with a status code and a JSON object, or lets an exception escape
  (which Flask turns into a 500 response).
\<close>

datatype response = Response nat "(string \<times> jval) list" | Raised py_exn

definition err :: "string \<Rightarrow> nat \<Rightarrow> response" where
  "err msg code = Response code [(''error'', JStr msg)]"

text \<open>The answer of \<open>@jwt_required()\<close> to a request without a valid access token.\<close>

definition unauthorized :: response where
  "unauthorized = Response 401 [(''msg'', JStr ''Missing Authorization Header'')]"

text \<open>\<open>update_one\<close> changes the first document that matches the filter.\<close>

fun update_first :: "('a \<Rightarrow> bool) \<Rightarrow> ('a \<Rightarrow> 'a) \<Rightarrow> 'a list \<Rightarrow> 'a list" where
  "update_first P f [] = []"
| "update_first P f (x # xs) = (if P x then f x # xs else x # update_first P f xs)"

definition find_user_by_id :: "db \<Rightarrow> oid \<Rightarrow> user_doc option" where
  "find_user_by_id d i = find (\<lambda>u. u_id u = i) (users d)"

definition set_balance :: "oid \<Rightarrow> num \<Rightarrow> db \<Rightarrow> db" where
  "set_balance i b d =
     d\<lparr>users := update_first (\<lambda>u. u_id u = i) (\<lambda>u. u\<lparr>u_balance := b\<rparr>) (users d)\<rparr>"

definition insert_transaction :: "txn_doc \<Rightarrow> db \<Rightarrow> db" where
  "insert_transaction t d = d\<lparr>transactions := transactions d @ [t]\<rparr>"

definition get_or :: "'a option \<Rightarrow> 'a \<Rightarrow> 'a" where
  "get_or field dflt = (case field of None \<Rightarrow> dflt | Some v \<Rightarrow> v)"

subsection \<open>\<open>app/services/audit.py\<close> and \<open>app/services/notification.py\<close>\<close>

text \<open>
  \<open>log_action\<close>; \<open>k\<close> and \<open>j\<close> say which clock reading and which fresh identifier the call
  consumes.
\<close>

definition log_action ::
  "env \<Rightarrow> nat \<Rightarrow> nat \<Rightarrow> http_request \<Rightarrow> string \<Rightarrow> string \<Rightarrow> string \<Rightarrow> string option
     \<Rightarrow> (string \<times> jval) list \<Rightarrow> db \<Rightarrow> db" where
  "log_action ev k j rq actor_id actor_role action target_user_id details d =
     d\<lparr>audit_logs := audit_logs d @
        [\<lparr>l_id = new_oid ev j, l_actor_id = actor_id, l_actor_role = actor_role,
          l_action = action, l_target_user_id = target_user_id, l_details = details,
          l_ip_address = rq_remote_addr rq,
          l_user_agent = get_or (rq_user_agent rq) ''unknown'',
          l_timestamp = clock ev k\<rparr>]\<rparr>"

text \<open>
  The three \<open>send_..._email\<close> functions build a message and call \<open>mail.send\<close> under
  \<open>except Exception\<close>; they return whether the message was sent.
\<close>

definition send_mail :: "env \<Rightarrow> mail \<Rightarrow> db \<Rightarrow> bool \<times> db" where
  "send_mail ev m d = (if mail_up ev then (True, d\<lparr>outbox := outbox d @ [m]\<rparr>) else (False, d))"

definition send_transaction_alert_email ::
  "env \<Rightarrow> string \<Rightarrow> string \<Rightarrow> string \<Rightarrow> num \<Rightarrow> num \<Rightarrow> db \<Rightarrow> db" where
  "send_transaction_alert_email ev user_email user_name txn_type amount balance d =
     snd (send_mail ev (TransactionAlertMail user_email user_name txn_type amount balance) d)"

definition send_access_decision_email ::
  "env \<Rightarrow> string \<Rightarrow> string \<Rightarrow> string \<Rightarrow> string \<Rightarrow> db \<Rightarrow> db" where
  "send_access_decision_email ev admin_email admin_name user_name decision d =
     snd (send_mail ev (AccessDecisionMail admin_email admin_name user_name decision) d)"


section \<open>The ledger (\<open>app/routes/user.py\<close>)\<close>

text \<open>The rupee sign of the deposit limit message, in UTF-8.\<close>

definition deposit_limit_msg :: string where
  "deposit_limit_msg =
     ''Maximum deposit limit is '' @ [CHR 0xE2, CHR 0x82, CHR 0xB9] @ ''10,00,000''"

definition deposit :: "env \<Rightarrow> http_request \<Rightarrow> db \<Rightarrow> response \<times> db" where
  "deposit ev rq d =
    (case jwt_identity rq of None \<Rightarrow> (unauthorized, d) | Some ident \<Rightarrow>
     (case as_num (dict_get (rq_amount rq) 0) of Inl e \<Rightarrow> (Raised e, d) | Inr amount \<Rightarrow>
      if amount \<le> 0 then (err ''Amount must be greater than 0'' 400, d)
      else if amount > 1000000 then (err deposit_limit_msg 400, d)
      else
       (case ObjectId (id_user_id ident) of Inl e \<Rightarrow> (Raised e, d) | Inr uid \<Rightarrow>
        (case find_user_by_id d uid of None \<Rightarrow> (Raised TypeError, d) | Some user \<Rightarrow>
         (let new_balance = u_balance user + amount;
              d1 = set_balance (u_id user) new_balance d;
              txn = \<lparr>t_id = new_oid ev 0, t_user_id = u_id user, t_type = ''credit'',
                     t_amount = amount,
                     t_description = get_or (rq_description rq) ''Deposit'',
                     t_balance_after = new_balance, t_related_account = None,
                     t_is_flagged = False, t_fraud_score = 0,
                     t_timestamp = clock ev 0\<rparr>;
              d2 = insert_transaction txn d1;
              d3 = send_transaction_alert_email ev (u_email user) (u_name user) ''credit''
                     amount new_balance d2;
              d4 = log_action ev 1 1 rq (u_id user) ''user'' ''deposit'' None
                     [(''amount'', JNum amount)] d3
          in (Response 200 [(''message'', JStr ''Deposit successful''),
                            (''amount'', JNum amount),
                            (''new_balance'', JNum new_balance)], d4))))))"

text \<open>\<open>datetime.hour\<close>, and \<open>replace(hour=0, minute=0, second=0)\<close>, which keeps the microseconds.\<close>

definition hour_of :: "time \<Rightarrow> int" where
  "hour_of t = (t div 3600000000) mod 24"

definition replace_hms0 :: "time \<Rightarrow> time" where
  "replace_hms0 t = t - t mod 86400000000 + t mod 1000000"

definition count_today :: "db \<Rightarrow> string \<Rightarrow> time \<Rightarrow> nat" where
  "count_today d uid since =
     length (filter (\<lambda>t. t_user_id t = uid \<and> t_timestamp t \<ge> since) (transactions d))"

definition withdraw :: "env \<Rightarrow> http_request \<Rightarrow> db \<Rightarrow> response \<times> db" where
  "withdraw ev rq d =
    (case jwt_identity rq of None \<Rightarrow> (unauthorized, d) | Some ident \<Rightarrow>
     (case as_num (dict_get (rq_amount rq) 0) of Inl e \<Rightarrow> (Raised e, d) | Inr amount \<Rightarrow>
      if amount \<le> 0 then (err ''Amount must be greater than 0'' 400, d)
      else
       (case ObjectId (id_user_id ident) of Inl e \<Rightarrow> (Raised e, d) | Inr uid \<Rightarrow>
        (case find_user_by_id d uid of None \<Rightarrow> (Raised TypeError, d) | Some user \<Rightarrow>
         if u_balance user < amount then (err ''Insufficient balance'' 400, d)
         else
         (let new_balance = u_balance user - amount;
              fraud_result = predict_fraud (fraud_model ev)
                \<lparr>td_amount = Some (PNum amount),
                 td_hour = Some (PNum (of_int (hour_of (clock ev 0)))),
                 td_balance_before = Some (PNum (u_balance user)),
                 td_transaction_count_today =
                   Some (PNum (of_nat (count_today d (u_id user) (replace_hms0 (clock ev 1)))))\<rparr>;
              d1 = set_balance (u_id user) new_balance d;
              txn = \<lparr>t_id = new_oid ev 0, t_user_id = u_id user, t_type = ''debit'',
                     t_amount = amount,
                     t_description = get_or (rq_description rq) ''Withdrawal'',
                     t_balance_after = new_balance, t_related_account = None,
                     t_is_flagged = is_fraud fraud_result,
                     t_fraud_score = fraud_score fraud_result,
                     t_timestamp = clock ev 2\<rparr>;
              d2 = insert_transaction txn d1;
              d3 = send_transaction_alert_email ev (u_email user) (u_name user) ''debit''
                     amount new_balance d2;
              d4 = log_action ev 3 1 rq (u_id user) ''user'' ''withdrawal'' None
                     [(''amount'', JNum amount),
                      (''fraud_flagged'', JBool (is_fraud fraud_result))] d3;
              response = [(''message'', JStr ''Withdrawal successful''),
                          (''amount'', JNum amount),
                          (''new_balance'', JNum new_balance)]
          in (Response 200
                (if is_fraud fraud_result
                 then response @
                   [(''warning'', JStr ''This transaction has been flagged for review'')]
                 else response), d4))))))"



section \<open>Permission tokens (\<open>app/services/token.py\<close>)\<close>

text \<open>
  \<open>generate_permission_token\<close> reads the clock twice, for \<open>iat\<close> and for \<open>exp\<close>; the
  encoder truncates both to whole seconds.  \<open>k\<close> is the index of the first reading.
\<close>

definition generate_permission_token ::
  "env \<Rightarrow> nat \<Rightarrow> string \<Rightarrow> string \<Rightarrow> string \<Rightarrow> jwt" where
  "generate_permission_token ev k admin_id user_id request_id =
     Signed (permission_secret ev)
       \<lparr>p_admin_id = admin_id, p_user_id = user_id, p_request_id = request_id,
        p_type = ''admin_permission'',
        p_iat = clock ev k div 1000000,
        p_exp = (clock ev (Suc k) + 1800000000) div 1000000\<rparr>"

datatype jwt_error = ExpiredSignatureError | InvalidTokenError

text \<open>
  \<open>jwt.decode\<close> with one key and the HS256 algorithm: a malformed token or one signed with
  another key is invalid, and a token is expired once its \<open>exp\<close> is not after the current
  time.
\<close>

definition jwt_decode :: "jwt \<Rightarrow> string \<Rightarrow> time \<Rightarrow> jwt_error + payload" where
  "jwt_decode tok key now =
    (case tok of
       Garbage s \<Rightarrow> Inl InvalidTokenError
     | Signed k p \<Rightarrow>
         if k \<noteq> key then Inl InvalidTokenError
         else if p_exp p * 1000000 \<le> now then Inl ExpiredSignatureError
         else Inr p)"

definition verify_permission_token :: "env \<Rightarrow> nat \<Rightarrow> jwt \<Rightarrow> payload option" where
  "verify_permission_token ev k token =
    (case jwt_decode token (permission_secret ev) (clock ev k) of
       Inr p \<Rightarrow> Some p
     | Inl ExpiredSignatureError \<Rightarrow> None
     | Inl InvalidTokenError \<Rightarrow> None)"

section \<open>Access delegation (\<open>app/routes/admin.py\<close>, \<open>app/routes/user.py\<close>)\<close>





definition update_request :: "oid \<Rightarrow> (access_request \<Rightarrow> access_request) \<Rightarrow> db \<Rightarrow> db" where
  "update_request i f d =
     d\<lparr>access_requests := update_first (\<lambda>r. r_id r = i) f (access_requests d)\<rparr>"

definition find_request :: "db \<Rightarrow> oid \<Rightarrow> access_request option" where
  "find_request d i = find (\<lambda>r. r_id r = i) (access_requests d)"

text \<open>
  The tail that \<open>grant_access\<close> and \<open>deny_access\<close> have in common: look the admin and the
  user up, notify the admin when both exist, write the audit entry.
\<close>

definition notify_decision ::
  "env \<Rightarrow> nat \<Rightarrow> http_request \<Rightarrow> access_request \<Rightarrow> string \<Rightarrow> string \<Rightarrow> string \<Rightarrow> db
     \<Rightarrow> py_exn + db" where
  "notify_decision ev k rq req request_id decision action d =
    (case ObjectId (r_admin_id req) of Inl e \<Rightarrow> Inl e | Inr aid \<Rightarrow>
     (case ObjectId (r_user_id req) of Inl e \<Rightarrow> Inl e | Inr uid \<Rightarrow>
      (let d1 = (case find_user_by_id d aid of None \<Rightarrow> d
                 | Some admin \<Rightarrow>
                    (case find_user_by_id d uid of None \<Rightarrow> d
                     | Some user \<Rightarrow>
                         send_access_decision_email ev (u_email admin) (u_name admin)
                           (u_name user) decision d))
       in Inr (log_action ev k 0 rq (r_user_id req) ''user'' action None
                 [(''request_id'', JStr request_id)] d1))))"

definition grant_access :: "env \<Rightarrow> http_request \<Rightarrow> string \<Rightarrow> db \<Rightarrow> response \<times> db" where
  "grant_access ev rq request_id d =
    (case ObjectId request_id of Inl e \<Rightarrow> (Raised e, d) | Inr rid \<Rightarrow>
     (case find_request d rid of
        None \<Rightarrow> (err ''Access request not found'' 404, d)
      | Some req \<Rightarrow>
         if r_status req \<noteq> ''pending''
         then (err (''Request already '' @ r_status req) 400, d)
         else if clock ev 0 > r_expires_at req
         then (err ''Access request has expired'' 410,
               update_request rid (\<lambda>r. r\<lparr>r_status := ''expired''\<rparr>) d)
         else
         (let permission_token =
                generate_permission_token ev 1 (r_admin_id req) (r_user_id req) request_id;
              d1 = update_request rid
                     (\<lambda>r. r\<lparr>r_status := ''granted'',
                            r_permission_token := Some permission_token,
                            r_granted_at := Some (clock ev 3)\<rparr>) d
          in case notify_decision ev 4 rq req request_id ''granted''
                    ''grant_admin_access'' d1 of
               Inl e \<Rightarrow> (Raised e, d1)
             | Inr d2 \<Rightarrow>
                 (Response 200
                    [(''message'',
                        JStr ''Access granted successfully. Admin will be notified.''),
                     (''expires_in'', JStr ''30 minutes'')], d2))))"

definition deny_access :: "env \<Rightarrow> http_request \<Rightarrow> string \<Rightarrow> db \<Rightarrow> response \<times> db" where
  "deny_access ev rq request_id d =
    (case ObjectId request_id of Inl e \<Rightarrow> (Raised e, d) | Inr rid \<Rightarrow>
     (case find_request d rid of
        None \<Rightarrow> (err ''Access request not found'' 404, d)
      | Some req \<Rightarrow>
         if r_status req \<noteq> ''pending''
         then (err (''Request already '' @ r_status req) 400, d)
         else
         (let d1 = update_request rid
                     (\<lambda>r. r\<lparr>r_status := ''denied'', r_denied_at := Some (clock ev 0)\<rparr>) d
          in case notify_decision ev 1 rq req request_id ''denied''
                    ''deny_admin_access'' d1 of
               Inl e \<Rightarrow> (Raised e, d1)
             | Inr d2 \<Rightarrow>
                 (Response 200
                    [(''message'', JStr ''Access denied. Admin has been notified.'')],
                  d2))))"

text \<open>
  \<open>view_user_account\<close>.  The transactions are listed newest first, at most twenty of them.
\<close>

definition recent_transactions :: "db \<Rightarrow> string \<Rightarrow> txn_doc list" where
  "recent_transactions d user_id =
     take 20 (rev (sort_key t_timestamp (filter (\<lambda>t. t_user_id t = user_id) (transactions d))))"

definition account_view :: "user_doc \<Rightarrow> txn_doc list \<Rightarrow> (string \<times> jval) list" where
  "account_view user txns =
     [(''user'', JObj [(''name'', JStr (u_name user)), (''email'', JStr (u_email user)),
                       (''phone'', JStr (u_phone user)),
                       (''account_number'', JStr (u_account_number user)),
                       (''balance'', JNum (u_balance user)),
                       (''is_active'', JBool (u_is_active user)),
                       (''created_at'', JDate (u_created_at user))]),
      (''transactions'',
         JArr (map (\<lambda>t. JObj [(''type'', JStr (t_type t)), (''amount'', JNum (t_amount t)),
                               (''description'', JStr (t_description t)),
                               (''balance_after'', JNum (t_balance_after t)),
                               (''is_flagged'', JBool (t_is_flagged t)),
                               (''timestamp'', JDate (t_timestamp t))]) txns)),
      (''access_note'', JStr ''This access is logged and monitored.'')]"

definition view_user_account :: "env \<Rightarrow> http_request \<Rightarrow> string \<Rightarrow> db \<Rightarrow> response \<times> db" where
  "view_user_account ev rq user_id d =
    (case jwt_identity rq of None \<Rightarrow> (unauthorized, d) | Some ident \<Rightarrow>
     if id_role ident \<noteq> ''admin'' then (err ''Admin access required'' 403, d)
     else
     (case rq_permission_token rq of
        None \<Rightarrow> (err ''Permission token required in X-Permission-Token header'' 401, d)
      | Some permission_token \<Rightarrow>
         if permission_token = Garbage []
         then (err ''Permission token required in X-Permission-Token header'' 401, d)
         else
         (case verify_permission_token ev 0 permission_token of
            None \<Rightarrow> (err ''Invalid or expired permission token'' 401, d)
          | Some payload \<Rightarrow>
             if p_admin_id payload \<noteq> id_user_id ident \<or> p_user_id payload \<noteq> user_id
             then (err ''Permission token does not match this request'' 403, d)
             else
             (case ObjectId (p_request_id payload) of Inl e \<Rightarrow> (Raised e, d) | Inr rid \<Rightarrow>
              (case find (\<lambda>r. r_id r = rid \<and> r_status r = ''granted'') (access_requests d) of
                 None \<Rightarrow> (err ''Access has been revoked or request not found'' 403, d)
               | Some req \<Rightarrow>
                 (case ObjectId user_id of Inl e \<Rightarrow> (Raised e, d) | Inr uid \<Rightarrow>
                  (case find_user_by_id d uid of
                     None \<Rightarrow> (err ''User not found'' 404, d)
                   | Some user \<Rightarrow>
                      (Response 200 (account_view user (recent_transactions d user_id)),
                       log_action ev 1 0 rq (id_user_id ident) ''admin''
                         ''viewed_user_account'' (Some user_id)
                         [(''request_id'', JStr (p_request_id payload))] d))))))))"

section \<open>A sample store\<close>

text \<open>
  The scenario of the specification: account A holds 1500 and has twelve transactions
  since midnight, account B holds 200, M is an administrator; the clock shows a time
  between 2 and 3 in the morning, and no fraud model has been trained.
\<close>

definition acct_a :: user_doc where
  "acct_a = \<lparr>u_id = ''65a1000000000000000000a1'', u_name = ''Asha'', u_email = ''asha@example.com'',
     u_phone = ''5550001'', u_account_number = ''ACC1001'', u_balance = 1500,
     u_is_active = True, u_role = ''user'', u_created_at = 0\<rparr>"

definition acct_b :: user_doc where
  "acct_b = \<lparr>u_id = ''65a1000000000000000000b2'', u_name = ''Bela'', u_email = ''bela@example.com'',
     u_phone = ''5550002'', u_account_number = ''ACC1002'', u_balance = 200,
     u_is_active = True, u_role = ''user'', u_created_at = 0\<rparr>"

definition admin_m :: user_doc where
  "admin_m = \<lparr>u_id = ''65a1000000000000000000c3'', u_name = ''Mira'', u_email = ''mira@example.com'',
     u_phone = ''5550003'', u_account_number = ''ACC9001'', u_balance = 0,
     u_is_active = True, u_role = ''admin'', u_created_at = 0\<rparr>"

definition sample_now :: time where
  "sample_now = 1702089000000000"

definition sample_txn :: "char \<Rightarrow> txn_doc" where
  "sample_txn c = \<lparr>t_id = ''65a10000000000000000070'' @ [c], t_user_id = ''65a1000000000000000000a1'',
     t_type = ''credit'', t_amount = 10, t_description = ''Deposit'', t_balance_after = 0,
     t_related_account = None, t_is_flagged = False, t_fraud_score = 0,
     t_timestamp = sample_now - 3600000000\<rparr>"

definition sample_db :: db where
  "sample_db = \<lparr>users = [acct_a, acct_b, admin_m],
     transactions = map sample_txn ''0123456789ab'',
     access_requests = [], audit_logs = [], outbox = []\<rparr>"

definition sample_env :: env where
  "sample_env = \<lparr>clock = (\<lambda>k. sample_now + int k),
     new_oid = (\<lambda>k. if k = 0 then ''65a1000000000000000000f0''
                     else if k = 1 then ''65a1000000000000000000f1''
                     else ''65a1000000000000000000f2''),
     permission_secret = ''permission-secret'', mail_up = True,
     fraud_model = NoModelFile\<rparr>"

definition request_of :: "string \<Rightarrow> string \<Rightarrow> http_request" where
  "request_of uid role = \<lparr>jwt_identity = Some \<lparr>id_user_id = uid, id_role = role, id_name = ''caller''\<rparr>,
     rq_amount = None, rq_description = None, rq_to_account_number = None,
     rq_reason = None, rq_permission_token = None, rq_remote_addr = Some ''10.0.0.7'',
     rq_user_agent = None\<rparr>"


text \<open>
  A request of M for the account A, made two hours ago, and the token issued for it ten
  minutes ago; the request as granted, as later revoked by a change of status, as still
  pending, and as pending but past its expiry.
\<close>

definition sample_token :: jwt where
  "sample_token = Signed ''permission-secret''
     \<lparr>p_admin_id = ''65a1000000000000000000c3'', p_user_id = ''65a1000000000000000000a1'', p_request_id = ''65a1000000000000000000d4'',
      p_type = ''admin_permission'', p_iat = 1702088400, p_exp = 1702090200\<rparr>"

definition sample_request :: access_request where
  "sample_request = \<lparr>r_id = ''65a1000000000000000000d4'', r_admin_id = ''65a1000000000000000000c3'', r_admin_name = ''Mira'',
     r_user_id = ''65a1000000000000000000a1'', r_reason = ''Suspicious activity review'', r_status = ''granted'',
     r_permission_token = Some sample_token,
     r_requested_at = sample_now - 7200000000, r_expires_at = sample_now + 79200000000,
     r_granted_at = Some (sample_now - 600000000), r_denied_at = None\<rparr>"

definition granted_db :: db where
  "granted_db = sample_db\<lparr>access_requests := [sample_request]\<rparr>"

definition revoked_db :: db where
  "revoked_db = sample_db\<lparr>access_requests := [sample_request\<lparr>r_status := ''denied''\<rparr>]\<rparr>"

definition pending_request :: access_request where
  "pending_request = sample_request\<lparr>r_status := ''pending'', r_permission_token := None,
     r_granted_at := None\<rparr>"


definition overdue_db :: db where
  "overdue_db =
     sample_db\<lparr>access_requests := [pending_request\<lparr>r_expires_at := sample_now - 1\<rparr>]\<rparr>"

section \<open>Properties of the fraud scorer\<close>

lemma rule_based_numeric:
  "rule_based_fraud_score \<lparr>td_amount = Some (PNum a), td_hour = Some (PNum h),
      td_balance_before = Some (PNum b), td_transaction_count_today = Some (PNum c)\<rparr>
   = Inr (min ((if b > 0 \<and> a / b > 8 / 10 then 3 / 10 else 0)
             + (if 0 \<le> h \<and> h \<le> 5 then 2 / 10 else 0)
             + (if c > 10 then 25 / 100 else 0)
             + (if a > 100000 then 25 / 100 else 0)) 1)"
  by (simp add: rule_based_fraud_score_def dict_get_def Let_def)

text \<open>Every value the rule-based score can take is left unchanged by the rounding.\<close>

lemma py_round4_weights:
  "py_round4 (min ((if P1 then 3 / 10 else 0) + (if P2 then 2 / 10 else 0)
             + (if P3 then 25 / 100 else 0) + (if P4 then 25 / 100 else 0)) 1)
   = min ((if P1 then 3 / 10 else 0) + (if P2 then 2 / 10 else 0)
             + (if P3 then 25 / 100 else 0) + (if P4 then 25 / 100 else 0)) 1"
  by (cases P1; cases P2; cases P3; cases P4) (simp_all add: py_round4_def Let_def)





section \<open>Properties of the ledger\<close>


lemma find_update_first:
  "(\<And>x. P x \<Longrightarrow> P (f x)) \<Longrightarrow> find P (update_first P f xs) = map_option f (find P xs)"
  by (induction xs) auto

lemma find_user_set_balance_same:
  "find_user_by_id (set_balance i b d) i
     = map_option (\<lambda>u. u\<lparr>u_balance := b\<rparr>) (find_user_by_id d i)"
  by (simp add: find_user_by_id_def set_balance_def find_update_first)

lemma find_Some_pred: "find P xs = Some x \<Longrightarrow> P x"
  by (induction xs) (auto split: if_splits)

lemma find_user_by_id_id: "find_user_by_id d i = Some u \<Longrightarrow> u_id u = i"
  unfolding find_user_by_id_def by (drule find_Some_pred) simp

lemma rule_based_verdict:
  "predict_fraud NoModelFile \<lparr>td_amount = Some (PNum a), td_hour = Some (PNum h),
      td_balance_before = Some (PNum b), td_transaction_count_today = Some (PNum c)\<rparr>
   = \<lparr>is_fraud = (min ((if b > 0 \<and> a / b > 8 / 10 then 3 / 10 else 0)
             + (if 0 \<le> h \<and> h \<le> 5 then 2 / 10 else 0)
             + (if c > 10 then 25 / 100 else 0)
             + (if a > 100000 then 25 / 100 else 0)) 1 \<ge> (1 / 2 :: num)),
      fraud_score = min ((if b > 0 \<and> a / b > 8 / 10 then 3 / 10 else 0)
             + (if 0 \<le> h \<and> h \<le> 5 then 2 / 10 else 0)
             + (if c > 10 then 25 / 100 else 0)
             + (if a > 100000 then 25 / 100 else 0)) 1, model = ''rule_based''\<rparr>"
  unfolding predict_fraud_def predict_fraud_try_def
  by (simp only: rule_based_numeric py_round4_weights model_file.case sum.case)

text \<open>
  C3.  A withdrawal of more than the balance of the caller's account (the balance being
  non-negative, as the ledger keeps it) is answered with 400 ``Insufficient balance'', and
  the store is returned as it was: balance, transactions, audit log and mail alike.
\<close>

theorem withdraw_insufficient_funds:
  assumes "jwt_identity rq = Some ident"
      and "rq_amount rq = Some (PNum amount)"
      and "ObjectId (id_user_id ident) = Inr uid"
      and "find_user_by_id d uid = Some user"
      and "0 \<le> u_balance user"
      and "u_balance user < amount"
  shows "withdraw ev rq d = (err ''Insufficient balance'' 400, d)"
  using assms by (simp add: withdraw_def dict_get_def)



lemma ObjectId_a: "ObjectId ''65a1000000000000000000a1'' = Inr ''65a1000000000000000000a1''"
  by (simp add: ObjectId_def is_hex_def hex_lower_def)

lemma find_a: "find_user_by_id sample_db ''65a1000000000000000000a1'' = Some acct_a"
  by (simp add: find_user_by_id_def sample_db_def acct_a_def)

theorem withdraw_insufficient_funds_witness:
  "withdraw sample_env ((request_of ''65a1000000000000000000a1'' ''user'')\<lparr>rq_amount := Some (PNum 1800)\<rparr>) sample_db
     = (err ''Insufficient balance'' 400, sample_db)"
  using withdraw_insufficient_funds [of "(request_of ''65a1000000000000000000a1'' ''user'')\<lparr>rq_amount := Some (PNum 1800)\<rparr>"
      "\<lparr>id_user_id = ''65a1000000000000000000a1'', id_role = ''user'', id_name = ''caller''\<rparr>" 1800 "''65a1000000000000000000a1''" sample_db acct_a sample_env]
  by (simp add: request_of_def ObjectId_a find_a) (simp add: acct_a_def)



lemma withdraw_scenario:
  assumes "fraud_model ev = NoModelFile"
      and "jwt_identity rq = Some ident"
      and "rq_amount rq = Some (PNum 400)"
      and "ObjectId (id_user_id ident) = Inr uid"
      and "find_user_by_id d uid = Some user"
      and "u_balance user = 1500"
      and "hour_of (clock ev 0) = 2"
      and "count_today d uid (replace_hms0 (clock ev 1)) = 12"
  shows "fst (withdraw ev rq d) =
           Response 200 [(''message'', JStr ''Withdrawal successful''), (''amount'', JNum 400),
                         (''new_balance'', JNum 1100)]
       \<and> find_user_by_id (snd (withdraw ev rq d)) uid = Some (user\<lparr>u_balance := 1100\<rparr>)
       \<and> transactions (snd (withdraw ev rq d)) = transactions d @
             [\<lparr>t_id = new_oid ev 0, t_user_id = uid, t_type = ''debit'', t_amount = 400,
               t_description = get_or (rq_description rq) ''Withdrawal'',
               t_balance_after = 1100, t_related_account = None,
               t_is_flagged = False, t_fraud_score = 9 / 20, t_timestamp = clock ev 2\<rparr>]"
proof -
  have uid: "u_id user = uid" using assms(5) by (rule find_user_by_id_id)
  let ?txn = "\<lparr>t_id = new_oid ev 0, t_user_id = uid, t_type = ''debit'', t_amount = 400,
               t_description = get_or (rq_description rq) ''Withdrawal'',
               t_balance_after = 1100, t_related_account = None,
               t_is_flagged = False, t_fraud_score = 9 / 20, t_timestamp = clock ev 2\<rparr>"
  have verdict: "predict_fraud NoModelFile
      \<lparr>td_amount = Some (PNum 400), td_hour = Some (PNum 2),
       td_balance_before = Some (PNum 1500), td_transaction_count_today = Some (PNum 12)\<rparr>
      = \<lparr>is_fraud = False, fraud_score = 9 / 20, model = ''rule_based''\<rparr>"
    by (simp add: rule_based_verdict)
  have wd: "withdraw ev rq d =
     (Response 200 [(''message'', JStr ''Withdrawal successful''), (''amount'', JNum 400),
                         (''new_balance'', JNum 1100)],
      log_action ev 3 1 rq uid ''user'' ''withdrawal'' None
        [(''amount'', JNum 400), (''fraud_flagged'', JBool False)]
        (send_transaction_alert_email ev (u_email user) (u_name user) ''debit'' 400 1100
          (insert_transaction ?txn (set_balance uid 1100 d))))"
    using assms uid by (simp add: withdraw_def dict_get_def Let_def verdict)
  show ?thesis
    using assms(5) find_user_set_balance_same[of uid 1100 d]
    by (simp add: wd find_user_by_id_def log_action_def send_transaction_alert_email_def
          send_mail_def insert_transaction_def) (simp add: set_balance_def)
qed


text \<open>
  C8, as the code has it.  With no trained model, a withdrawal of 400 from a balance of 1500
  at hour 2, the account having 12 transactions since midnight, succeeds and leaves 1100;
  its debit transaction carries the score 0.2 + 0.25 = 0.45, which is below the threshold
  0.5, so \<open>is_flagged\<close> is false and the response carries no warning.
\<close>

theorem withdraw_scenario_unflagged:
  assumes "fraud_model ev = NoModelFile"
      and "jwt_identity rq = Some ident"
      and "rq_amount rq = Some (PNum 400)"
      and "ObjectId (id_user_id ident) = Inr uid"
      and "find_user_by_id d uid = Some user"
      and "u_balance user = 1500"
      and "hour_of (clock ev 0) = 2"
      and "count_today d uid (replace_hms0 (clock ev 1)) = 12"
  shows "fst (withdraw ev rq d) =
           Response 200 [(''message'', JStr ''Withdrawal successful''), (''amount'', JNum 400),
                         (''new_balance'', JNum 1100)]
       \<and> find_user_by_id (snd (withdraw ev rq d)) uid = Some (user\<lparr>u_balance := 1100\<rparr>)
       \<and> transactions (snd (withdraw ev rq d)) = transactions d @
             [\<lparr>t_id = new_oid ev 0, t_user_id = uid, t_type = ''debit'', t_amount = 400,
               t_description = get_or (rq_description rq) ''Withdrawal'',
               t_balance_after = 1100, t_related_account = None,
               t_is_flagged = False, t_fraud_score = 9 / 20, t_timestamp = clock ev 2\<rparr>]"
  using assms by (rule withdraw_scenario)

lemma count_a: "count_today sample_db ''65a1000000000000000000a1'' (replace_hms0 (clock sample_env 1)) = 12"
  by (simp add: count_today_def sample_db_def sample_txn_def sample_env_def sample_now_def
        replace_hms0_def)

lemma hour_a: "hour_of (clock sample_env 0) = 2"
  by (simp add: sample_env_def sample_now_def hour_of_def)

lemma no_model: "fraud_model sample_env = NoModelFile"
  by (simp add: sample_env_def)

lemma ident_a: "jwt_identity ((request_of ''65a1000000000000000000a1'' r)\<lparr>rq_amount := a\<rparr>)
    = Some \<lparr>id_user_id = ''65a1000000000000000000a1'', id_role = r, id_name = ''caller''\<rparr>"
  by (simp add: request_of_def)

lemma ObjectId_ident_a:
  "ObjectId (id_user_id \<lparr>id_user_id = ''65a1000000000000000000a1'', id_role = r, id_name = ''caller''\<rparr>) = Inr ''65a1000000000000000000a1''"
  by (simp add: ObjectId_a)

lemma balance_a: "u_balance acct_a = 1500"
  by (simp add: acct_a_def)

lemma amount_rq: "rq_amount (r\<lparr>rq_amount := a\<rparr>) = a"
  by simp

theorem withdraw_scenario_unflagged_witness:
  "fst (withdraw sample_env ((request_of ''65a1000000000000000000a1'' ''user'')\<lparr>rq_amount := Some (PNum 400)\<rparr>)
         sample_db) =
           Response 200 [(''message'', JStr ''Withdrawal successful''), (''amount'', JNum 400),
                         (''new_balance'', JNum 1100)]
   \<and> find_user_by_id (snd (withdraw sample_env
         ((request_of ''65a1000000000000000000a1'' ''user'')\<lparr>rq_amount := Some (PNum 400)\<rparr>) sample_db)) ''65a1000000000000000000a1''
       = Some (acct_a\<lparr>u_balance := 1100\<rparr>)"
  using withdraw_scenario_unflagged [OF no_model ident_a [where r = "''user''"] amount_rq
      ObjectId_ident_a find_a balance_a hour_a count_a]
  by (elim conjE) (intro conjI)

text \<open>
  The scenario on the sample store: the debit that the withdrawal records is not flagged.
\<close>

theorem withdraw_scenario_flag_counterexample:
  "fraud_model sample_env = NoModelFile
   \<and> find_user_by_id sample_db ''65a1000000000000000000a1'' = Some acct_a \<and> u_balance acct_a = 1500
   \<and> hour_of (clock sample_env 0) = 2
   \<and> count_today sample_db ''65a1000000000000000000a1'' (replace_hms0 (clock sample_env 1)) = 12
   \<and> t_is_flagged (last (transactions (snd (withdraw sample_env
         ((request_of ''65a1000000000000000000a1'' ''user'')\<lparr>rq_amount := Some (PNum 400)\<rparr>) sample_db)))) = False"
proof -
  have "t_is_flagged (last (transactions (snd (withdraw sample_env
         ((request_of ''65a1000000000000000000a1'' ''user'')\<lparr>rq_amount := Some (PNum 400)\<rparr>) sample_db)))) = False"
    using withdraw_scenario [OF no_model ident_a [where r = "''user''"] amount_rq
      ObjectId_ident_a find_a balance_a hour_a count_a]
    by simp
  then show ?thesis
    by (intro conjI no_model find_a balance_a hour_a count_a)
qed

subsection \<open>Transfers\<close>




lemma find_Some_mem: "find P xs = Some x \<Longrightarrow> x \<in> set xs"
  by (induction xs) (auto split: if_splits)









section \<open>Properties of the access delegation\<close>


lemma verify_Garbage: "verify_permission_token ev k (Garbage s) = None"
  by (simp add: verify_permission_token_def jwt_decode_def)

lemma find_None_none: "find P xs = None \<Longrightarrow> x \<in> set xs \<Longrightarrow> \<not> P x"
  by (induction xs) (auto split: if_splits)

text \<open>
  C1.  An admin's view of an account succeeds only if the permission token passes
  \<open>verify_permission_token\<close> and a request with the token's request id is stored with
  status \<open>granted\<close>.  For an admin caller holding a token that verifies: if the token's
  admin id or account id differs from the caller's id or from the account asked for, the
  answer is 403 ``Permission token does not match this request''; if they agree and no
  request with the token's request id is currently granted, the answer is 403 ``Access has
  been revoked or request not found''.  Either rejection leaves the store as it was.
\<close>

theorem view_user_account_double_check:
  "(fst (view_user_account ev rq user_id d) = Response 200 body \<longrightarrow>
      (\<exists>tok p rid req. rq_permission_token rq = Some tok
         \<and> verify_permission_token ev 0 tok = Some p
         \<and> ObjectId (p_request_id p) = Inr rid
         \<and> req \<in> set (access_requests d) \<and> r_id req = rid \<and> r_status req = ''granted''))
   \<and> (jwt_identity rq = Some ident \<and> id_role ident = ''admin''
        \<and> rq_permission_token rq = Some tok \<and> verify_permission_token ev 0 tok = Some p
      \<longrightarrow>
        (p_admin_id p \<noteq> id_user_id ident \<or> p_user_id p \<noteq> user_id \<longrightarrow>
           view_user_account ev rq user_id d
             = (err ''Permission token does not match this request'' 403, d))
      \<and> (p_admin_id p = id_user_id ident \<and> p_user_id p = user_id
           \<and> ObjectId (p_request_id p) = Inr rid
           \<and> \<not> (\<exists>req. req \<in> set (access_requests d) \<and> r_id req = rid
                     \<and> r_status req = ''granted'') \<longrightarrow>
           view_user_account ev rq user_id d
             = (err ''Access has been revoked or request not found'' 403, d)))"
proof (intro conjI impI)
  assume ok: "fst (view_user_account ev rq user_id d) = Response 200 body"
  then obtain tok p rid req where
      "rq_permission_token rq = Some tok" "verify_permission_token ev 0 tok = Some p"
      "ObjectId (p_request_id p) = Inr rid"
      "find (\<lambda>r. r_id r = rid \<and> r_status r = ''granted'') (access_requests d) = Some req"
    by (auto simp: view_user_account_def err_def unauthorized_def
          split: option.splits sum.splits if_splits)
  moreover from this(4) have "req \<in> set (access_requests d)" "r_id req = rid \<and> r_status req = ''granted''"
    by (auto dest: find_Some_mem find_Some_pred)
  ultimately show "\<exists>tok p rid req. rq_permission_token rq = Some tok
         \<and> verify_permission_token ev 0 tok = Some p
         \<and> ObjectId (p_request_id p) = Inr rid
         \<and> req \<in> set (access_requests d) \<and> r_id req = rid \<and> r_status req = ''granted''"
    by blast
next
  assume h: "jwt_identity rq = Some ident \<and> id_role ident = ''admin''
        \<and> rq_permission_token rq = Some tok \<and> verify_permission_token ev 0 tok = Some p"
  then have ng: "tok \<noteq> Garbage []" by (auto simp: verify_Garbage)
  show "view_user_account ev rq user_id d
             = (err ''Permission token does not match this request'' 403, d)"
    if "p_admin_id p \<noteq> id_user_id ident \<or> p_user_id p \<noteq> user_id"
    using h ng that by (auto simp: view_user_account_def)
  show "view_user_account ev rq user_id d
             = (err ''Access has been revoked or request not found'' 403, d)"
    if m: "p_admin_id p = id_user_id ident \<and> p_user_id p = user_id
           \<and> ObjectId (p_request_id p) = Inr rid
           \<and> \<not> (\<exists>req. req \<in> set (access_requests d) \<and> r_id req = rid
                     \<and> r_status req = ''granted'')"
  proof -
    have "find (\<lambda>r. r_id r = rid \<and> r_status r = ''granted'') (access_requests d) = None"
      using m by (auto simp: find_None_iff)
    then show ?thesis using h ng m by (simp add: view_user_account_def)
  qed
qed


lemma ObjectId_ids:
  "ObjectId ''65a1000000000000000000b2'' = Inr ''65a1000000000000000000b2''" "ObjectId ''65a1000000000000000000c3'' = Inr ''65a1000000000000000000c3''" "ObjectId ''65a1000000000000000000d4'' = Inr ''65a1000000000000000000d4''"
  by (simp_all add: ObjectId_def is_hex_def hex_lower_def)

lemma verify_sample_token:
  "verify_permission_token sample_env 0 sample_token
     = Some \<lparr>p_admin_id = ''65a1000000000000000000c3'', p_user_id = ''65a1000000000000000000a1'', p_request_id = ''65a1000000000000000000d4'',
      p_type = ''admin_permission'', p_iat = 1702088400, p_exp = 1702090200\<rparr>"
  by (simp add: verify_permission_token_def jwt_decode_def sample_token_def sample_env_def
        sample_now_def)

lemma view_granted:
  "fst (view_user_account sample_env
          ((request_of ''65a1000000000000000000c3'' ''admin'')\<lparr>rq_permission_token := Some sample_token\<rparr>)
          ''65a1000000000000000000a1'' granted_db)
     = Response 200 (account_view acct_a (recent_transactions granted_db ''65a1000000000000000000a1''))"
proof -
  have "sample_token \<noteq> Garbage []" by (simp add: sample_token_def)
  moreover have "find_user_by_id granted_db ''65a1000000000000000000a1'' = Some acct_a"
    by (simp add: find_user_by_id_def granted_db_def sample_db_def acct_a_def)
  moreover have "find (\<lambda>r. r_id r = ''65a1000000000000000000d4'' \<and> r_status r = ''granted'')
                   (access_requests granted_db) = Some sample_request"
    by (simp add: granted_db_def sample_request_def)
  ultimately show ?thesis
    by (simp add: view_user_account_def request_of_def verify_sample_token ObjectId_ids
          ObjectId_a)
qed

theorem view_user_account_double_check_witness:
  "view_user_account sample_env
      ((request_of ''65a1000000000000000000c3'' ''admin'')\<lparr>rq_permission_token := Some sample_token\<rparr>)
      ''65a1000000000000000000a1'' revoked_db
     = (err ''Access has been revoked or request not found'' 403, revoked_db)
   \<and> view_user_account sample_env
      ((request_of ''65a1000000000000000000c3'' ''admin'')\<lparr>rq_permission_token := Some sample_token\<rparr>)
      ''65a1000000000000000000b2'' granted_db
     = (err ''Permission token does not match this request'' 403, granted_db)
   \<and> fst (view_user_account sample_env
          ((request_of ''65a1000000000000000000c3'' ''admin'')\<lparr>rq_permission_token := Some sample_token\<rparr>)
          ''65a1000000000000000000a1'' granted_db)
     = Response 200 (account_view acct_a (recent_transactions granted_db ''65a1000000000000000000a1''))
   \<and> (\<exists>req. req \<in> set (access_requests granted_db) \<and> r_status req = ''granted'')"
proof -
  let ?rq = "(request_of ''65a1000000000000000000c3'' ''admin'')\<lparr>rq_permission_token := Some sample_token\<rparr>"
  let ?ident = "\<lparr>id_user_id = ''65a1000000000000000000c3'', id_role = ''admin'', id_name = ''caller''\<rparr>"
  let ?p = "\<lparr>p_admin_id = ''65a1000000000000000000c3'', p_user_id = ''65a1000000000000000000a1'', p_request_id = ''65a1000000000000000000d4'',
      p_type = ''admin_permission'', p_iat = 1702088400, p_exp = 1702090200\<rparr>"
  have caller: "jwt_identity ?rq = Some ?ident \<and> id_role ?ident = ''admin''
        \<and> rq_permission_token ?rq = Some sample_token
        \<and> verify_permission_token sample_env 0 sample_token = Some ?p"
    by (simp add: request_of_def verify_sample_token)
  have revoked: "p_admin_id ?p = id_user_id ?ident \<and> p_user_id ?p = ''65a1000000000000000000a1''
           \<and> ObjectId (p_request_id ?p) = Inr ''65a1000000000000000000d4''
           \<and> \<not> (\<exists>req. req \<in> set (access_requests revoked_db) \<and> r_id req = ''65a1000000000000000000d4''
                     \<and> r_status req = ''granted'')"
    by (simp add: ObjectId_ids revoked_db_def sample_request_def)
  have mismatch: "p_admin_id ?p \<noteq> id_user_id ?ident \<or> p_user_id ?p \<noteq> ''65a1000000000000000000b2''"
    by simp
  note r1 = view_user_account_double_check [where ev = sample_env and rq = ?rq
      and d = revoked_db and user_id = "''65a1000000000000000000a1''" and ident = ?ident and tok = sample_token
      and p = ?p and rid = "''65a1000000000000000000d4''",
      THEN conjunct2, THEN mp, OF caller, THEN conjunct2, THEN mp, OF revoked]
  note r2 = view_user_account_double_check [where ev = sample_env and rq = ?rq
      and d = granted_db and user_id = "''65a1000000000000000000b2''" and ident = ?ident and tok = sample_token
      and p = ?p,
      THEN conjunct2, THEN mp, OF caller, THEN conjunct1, THEN mp, OF mismatch]
  note r3 = view_user_account_double_check [where ev = sample_env and rq = ?rq
      and d = granted_db and user_id = "''65a1000000000000000000a1''",
      THEN conjunct1, THEN mp, OF view_granted]
  have "\<exists>req. req \<in> set (access_requests granted_db) \<and> r_status req = ''granted''"
    using r3 by blast
  with r1 r2 view_granted show ?thesis by (intro conjI)
qed

subsection \<open>Deciding a request\<close>


lemma notify_decision_requests:
  "notify_decision ev k rq req request_id decision action d = Inr d2 \<Longrightarrow>
   access_requests d2 = access_requests d"
  by (auto simp: notify_decision_def log_action_def send_access_decision_email_def
        send_mail_def Let_def split: sum.splits option.splits if_splits)





lemma deny_access_requests:
  assumes "ObjectId request_id = Inr rid" "find_request d rid = Some req"
      and "r_status req = ''pending''"
  shows "access_requests (snd (deny_access ev rq request_id d))
     = access_requests (update_request rid
          (\<lambda>r. r\<lparr>r_status := ''denied'', r_denied_at := Some (clock ev 0)\<rparr>) d)"
  using assms
  by (auto simp: deny_access_def Let_def split: sum.splits dest: notify_decision_requests)


text \<open>A grant made after the expiry of a pending request marks the request \<open>expired\<close>.\<close>

lemma grant_access_overdue:
  assumes "ObjectId request_id = Inr rid" "find_request d rid = Some req"
      and "r_status req = ''pending''" "r_expires_at req < clock ev 0"
  shows "grant_access ev rq request_id d
     = (err ''Access request has expired'' 410,
        update_request rid (\<lambda>r. r\<lparr>r_status := ''expired''\<rparr>) d)"
  using assms by (simp add: grant_access_def)


lemma pending_request_fields:
  "r_status pending_request = ''pending''" "r_user_id pending_request = ''65a1000000000000000000a1''"
  "r_admin_id pending_request = ''65a1000000000000000000c3''" "r_id pending_request = ''65a1000000000000000000d4''"
  "r_expires_at pending_request = sample_now + 79200000000"
  by (simp_all add: pending_request_def sample_request_def)

lemma clock_sample: "clock sample_env k = sample_now + int k"
  by (simp add: sample_env_def)




lemma find_overdue_request:
  "find_request overdue_db ''65a1000000000000000000d4'' = Some (pending_request\<lparr>r_expires_at := sample_now - 1\<rparr>)"
  by (simp add: find_request_def overdue_db_def pending_request_def sample_request_def)

text \<open>
  C5.  A pending request whose expiry lies in the past must not be decided.
  \<open>grant_access\<close> checks the expiry (lemma \<open>grant_access_overdue\<close>); \<open>deny_access\<close> has
  no such check: on the sample store, with a pending request that expired a microsecond
  ago, it answers 200 and sets the status to \<open>denied\<close>.
\<close>

theorem deny_access_overdue_request:
  "map r_status (access_requests overdue_db) = [''pending'']
   \<and> map r_expires_at (access_requests overdue_db) = [sample_now - 1]
   \<and> clock sample_env 0 = sample_now
   \<and> fst (deny_access sample_env (request_of ''65a1000000000000000000a1'' ''user'') ''65a1000000000000000000d4'' overdue_db)
       = Response 200 [(''message'', JStr ''Access denied. Admin has been notified.'')]
   \<and> map r_status (access_requests
        (snd (deny_access sample_env (request_of ''65a1000000000000000000a1'' ''user'') ''65a1000000000000000000d4'' overdue_db)))
       = [''denied'']"
proof -
  let ?req = "pending_request\<lparr>r_expires_at := sample_now - 1\<rparr>"
  have st: "r_status ?req = ''pending''" by (simp add: pending_request_fields)
  have "map r_status (access_requests
        (snd (deny_access sample_env (request_of ''65a1000000000000000000a1'' ''user'') ''65a1000000000000000000d4'' overdue_db)))
       = [''denied'']"
    by (simp add: deny_access_requests [OF ObjectId_ids(3) find_overdue_request st]
          update_request_def)
       (simp add: overdue_db_def pending_request_fields)
  moreover have "fst (deny_access sample_env (request_of ''65a1000000000000000000a1'' ''user'') ''65a1000000000000000000d4'' overdue_db)
       = Response 200 [(''message'', JStr ''Access denied. Admin has been notified.'')]"
    using st
    by (simp add: deny_access_def ObjectId_ids find_overdue_request notify_decision_def
          pending_request_fields ObjectId_a Let_def)
  moreover have "map r_status (access_requests overdue_db) = [''pending'']"
      "map r_expires_at (access_requests overdue_db) = [sample_now - 1]"
    by (simp_all add: overdue_db_def pending_request_fields)
  moreover have "clock sample_env 0 = sample_now" by (simp add: clock_sample)
  ultimately show ?thesis by (intro conjI)
qed

subsection \<open>At most one pending request\<close>

















end
